theory Spec2Isabelle
  imports Main "HOL-Library.Word"
begin

section \<open>The TodoList component (src/components/TodoList.tsx)\<close>

text \<open>
  The component keeps three pieces of React state (\<open>tasks\<close>, \<open>newTask\<close>, \<open>editingId\<close>)
  and talks to two collaborators: the Supabase client (four calls on the table
  \<open>tasks\<close>) and the toast notifier. The model threads one record through every handler:
  the three pieces of component state, the state of the backend behind the client, and the
  chronological list of effects the handlers have performed (remote calls, toasts, the
  confirmation prompt). Every handler is run to completion, the trailing un-awaited
  \<open>fetchData()\<close> included, with no other handler interleaved.
\<close>

subsection \<open>JavaScript strings and truthiness\<close>

text \<open>
  A JavaScript string is a sequence of UTF-16 code units. \<open>js\<close> reads an ASCII literal
  as such a sequence.
\<close>

type_synonym jsstring = "16 word list"

definition js :: "string \<Rightarrow> jsstring" where
  "js s = map of_char s"

text \<open>
  \<open>String.prototype.trim\<close> strips the ECMAScript WhiteSpace and LineTerminator code
  points from both ends: TAB, LF, VT, FF, CR, SP, NBSP, ZWNBSP (U+FEFF), LS, PS and
  the remaining code points of category Zs (U+1680, U+2000..U+200A, U+202F, U+205F,
  U+3000). All of them are single code units.
\<close>

definition isWhiteSpace :: "16 word \<Rightarrow> bool" where
  "isWhiteSpace c \<longleftrightarrow>
     c \<in> {0x0009, 0x000A, 0x000B, 0x000C, 0x000D, 0x0020, 0x00A0, 0x1680,
          0x2028, 0x2029, 0x202F, 0x205F, 0x3000, 0xFEFF}
     \<or> (0x2000 \<le> c \<and> c \<le> 0x200A)"

definition trim :: "jsstring \<Rightarrow> jsstring" where
  "trim s = rev (dropWhile isWhiteSpace (rev (dropWhile isWhiteSpace s)))"

text \<open>A string is falsy exactly when it is empty: \<open>!str\<close>.\<close>

definition falsy_string :: "jsstring \<Rightarrow> bool" where
  "falsy_string str \<longleftrightarrow> str = []"

text \<open>
  A value of type \<open>number | null\<close> used as a condition (\<open>if (editingId)\<close>,
  \<open>editingId && ...\<close>, \<open>editingId ? ... : ...\<close>) is truthy when it is a number other
  than zero; \<open>null\<close> and \<open>0\<close> are both falsy. Task ids are integers.
\<close>

fun truthy :: "int option \<Rightarrow> bool" where
  "truthy None = False"
| "truthy (Some n) = (n \<noteq> 0)"

subsection \<open>Data\<close>

text \<open>
  \<open>NewTask\<close> is the object \<open>{ title, desc }\<close> held in the \<open>newTask\<close> state and sent
  to \<open>insert\<close> and \<open>update\<close>; \<open>Task\<close> is a row of the table, the same two fields plus
  \<open>id\<close> and \<open>created_at\<close>.
\<close>

record NewTask =
  title :: jsstring
  desc :: jsstring

record Task = NewTask +
  id_task :: int
  created_at :: jsstring

text \<open>
  What a Supabase call resolves to: every call yields \<open>{ error }\<close> (null on success),
  the select also \<open>data\<close> (the rows, or null).
\<close>

record PostgrestError =
  message :: jsstring

record response =
  error :: "PostgrestError option"

record select_response = response +
  data :: "Task list option"

text \<open>
  The Supabase client is outside the repository, so it is a parameter: four calls on a
  backend of any type \<open>'b\<close>, each returning its response and the backend afterwards.
  \<^item> \<open>select_order\<close>: \<open>from("tasks").select("*").order("created_at", { ascending: true })\<close>
  \<^item> \<open>update_eq d i\<close>: \<open>from("tasks").update(d).eq("id", i)\<close>
  \<^item> \<open>insert_single d\<close>: \<open>from("tasks").insert(d).single()\<close>
  \<^item> \<open>delete_eq i\<close>: \<open>from("tasks").delete().eq("id", i)\<close>
\<close>

record 'b supabase =
  select_order :: "'b \<Rightarrow> select_response \<times> 'b"
  update_eq :: "NewTask \<Rightarrow> int \<Rightarrow> 'b \<Rightarrow> response \<times> 'b"
  insert_single :: "NewTask \<Rightarrow> 'b \<Rightarrow> response \<times> 'b"
  delete_eq :: "int \<Rightarrow> 'b \<Rightarrow> response \<times> 'b"

text \<open>The four toast channels, and the effects a handler can perform.\<close>

datatype toast_kind = Success | Error | Warn | Info

datatype effect =
    Toast toast_kind jsstring
  | Confirm jsstring
  | Call_select
  | Call_update NewTask int
  | Call_insert NewTask
  | Call_delete int

record 'b state =
  tasks :: "Task list"
  newTask :: NewTask
  editingId :: "int option"
  backend :: 'b
  effects :: "effect list"

text \<open>The state on mount: the three \<open>useState\<close> initial values, nothing done yet.\<close>

definition initial :: "'b \<Rightarrow> 'b state" where
  "initial b =
     \<lparr>tasks = [], newTask = \<lparr>title = [], desc = []\<rparr>, editingId = None,
      backend = b, effects = []\<rparr>"

subsection \<open>Handlers\<close>

definition toast :: "toast_kind \<Rightarrow> jsstring \<Rightarrow> 'b state \<Rightarrow> 'b state" where
  "toast k m s = s\<lparr>effects := effects s @ [Toast k m]\<rparr>"

text \<open>\<open>fetchData\<close>: one select; an error is toasted, otherwise \<open>setTasks(data || [])\<close>.\<close>

definition fetchData :: "'b supabase \<Rightarrow> 'b state \<Rightarrow> 'b state" where
  "fetchData sb s =
     (let (r, b) = select_order sb (backend s);
          s1 = s\<lparr>backend := b, effects := effects s @ [Call_select]\<rparr>
      in case error r of
           Some e \<Rightarrow> toast Error (js ''Error fetching tasks: '' @ message e) s1
         | None \<Rightarrow> s1\<lparr>tasks := (case data r of Some d \<Rightarrow> d | None \<Rightarrow> [])\<rparr>)"

text \<open>The end of \<open>handleSubmit\<close>, reached by both branches on success.\<close>

definition resetAndFetch :: "'b supabase \<Rightarrow> 'b state \<Rightarrow> 'b state" where
  "resetAndFetch sb s = fetchData sb (s\<lparr>newTask := \<lparr>title = [], desc = []\<rparr>\<rparr>)"

text \<open>The branch \<open>if (editingId) { ... }\<close> of \<open>handleSubmit\<close>, with \<open>editingId = i\<close>.\<close>

definition updateBranch :: "'b supabase \<Rightarrow> int \<Rightarrow> 'b state \<Rightarrow> 'b state" where
  "updateBranch sb i s =
     (let d = \<lparr>title = title (newTask s), desc = desc (newTask s)\<rparr>;
          (r, b) = update_eq sb d i (backend s);
          s1 = s\<lparr>backend := b, effects := effects s @ [Call_update d i]\<rparr>
      in case error r of
           Some e \<Rightarrow> toast Error (js ''Error updating task: '' @ message e) s1
         | None \<Rightarrow>
             resetAndFetch sb
               ((toast Success (js ''Task updated successfully!'') s1)\<lparr>editingId := None\<rparr>))"

text \<open>The branch \<open>else { ... }\<close> of \<open>handleSubmit\<close>.\<close>

definition insertBranch :: "'b supabase \<Rightarrow> 'b state \<Rightarrow> 'b state" where
  "insertBranch sb s =
     (let (r, b) = insert_single sb (newTask s) (backend s);
          s1 = s\<lparr>backend := b, effects := effects s @ [Call_insert (newTask s)]\<rparr>
      in case error r of
           Some e \<Rightarrow> toast Error (js ''Error inserting task: '' @ message e) s1
         | None \<Rightarrow> resetAndFetch sb (toast Success (js ''Task added successfully!'') s1))"

text \<open>
  \<open>handleSubmit\<close>. Its first statement, \<open>e.preventDefault()\<close>, only keeps the browser
  from submitting the form and is left out. The warning text starts with U+26A0 U+FE0F. The test
  \<open>if (editingId)\<close> is on truthiness, so the update branch is taken for a non-zero
  number and the insert branch for \<open>null\<close> and for \<open>0\<close>.
\<close>

definition handleSubmit :: "'b supabase \<Rightarrow> 'b state \<Rightarrow> 'b state" where
  "handleSubmit sb s =
     (if falsy_string (trim (title (newTask s))) \<or> falsy_string (trim (desc (newTask s))) then
        toast Warn ([0x26A0, 0xFE0F] @ js '' Please fill in both the title and description!'') s
      else
        (case editingId s of
           Some i \<Rightarrow> if truthy (Some i) then updateBranch sb i s else insertBranch sb s
         | None \<Rightarrow> insertBranch sb s))"

text \<open>
  \<open>handleDelete id\<close>; \<open>confirmDelete\<close> is what the user answers to the blocking prompt.
  The toast after a successful delete is \<open>toast.info\<close>, its text starts with
  U+1F5D1 U+FE0F (the surrogate pair D83D DDD1, then FE0F).
\<close>

definition handleDelete :: "'b supabase \<Rightarrow> int \<Rightarrow> bool \<Rightarrow> 'b state \<Rightarrow> 'b state" where
  "handleDelete sb i confirmDelete s =
     (let s0 = s\<lparr>effects := effects s @ [Confirm (js ''Are you sure you want to delete this task?'')]\<rparr>
      in if \<not> confirmDelete then s0
         else
           (let (r, b) = delete_eq sb i (backend s0);
                s1 = s0\<lparr>backend := b, effects := effects s0 @ [Call_delete i]\<rparr>
            in case error r of
                 Some e \<Rightarrow> toast Error (js ''Error deleting task: '' @ message e) s1
               | None \<Rightarrow>
                   fetchData sb
                     (toast Info ([0xD83D, 0xDDD1, 0xFE0F] @ js '' Task deleted successfully!'') s1)))"

definition handleEdit :: "Task \<Rightarrow> 'b state \<Rightarrow> 'b state" where
  "handleEdit task s =
     s\<lparr>newTask := \<lparr>title = title task, desc = desc task\<rparr>, editingId := Some (id_task task)\<rparr>"

text \<open>
  The \<open>onClick\<close> of the "Cancel Edit" button (its text starts with U+270F U+FE0F), and
  the condition \<open>editingId && (...)\<close> under which the button is rendered.
\<close>

definition cancelEdit :: "'b state \<Rightarrow> 'b state" where
  "cancelEdit s =
     toast Info ([0x270F, 0xFE0F] @ js '' Edit cancelled'')
       (s\<lparr>editingId := None, newTask := \<lparr>title = [], desc = []\<rparr>\<rparr>)"

definition cancelShown :: "'b state \<Rightarrow> bool" where
  "cancelShown s \<longleftrightarrow> truthy (editingId s)"

text \<open>
  The two \<open>onChange\<close> handlers of the form:
  \<open>setNewTask((prev) => ({ ...prev, title: e.target.value }))\<close> and the same for \<open>desc\<close>.
\<close>

definition changeTitle :: "jsstring \<Rightarrow> 'b state \<Rightarrow> 'b state" where
  "changeTitle v s = s\<lparr>newTask := (newTask s)\<lparr>title := v\<rparr>\<rparr>"

definition changeDesc :: "jsstring \<Rightarrow> 'b state \<Rightarrow> 'b state" where
  "changeDesc v s = s\<lparr>newTask := (newTask s)\<lparr>desc := v\<rparr>\<rparr>"

text \<open>The \<open>useEffect\<close> with no dependencies: one \<open>fetchData\<close> on mount.\<close>

definition mount :: "'b supabase \<Rightarrow> 'b \<Rightarrow> 'b state" where
  "mount sb b = fetchData sb (initial b)"

subsection \<open>Reading the effects\<close>

text \<open>
  \<open>added s s'\<close> is what a handler started in \<open>s\<close> and ending in \<open>s'\<close> has appended to
  the effects; \<open>remote\<close> keeps the calls to the client, \<open>mutations\<close> the three calls that
  change the table, \<open>toasts\<close> the notifications.
\<close>

definition added :: "'b state \<Rightarrow> 'b state \<Rightarrow> effect list" where
  "added s s' = drop (length (effects s)) (effects s')"

fun is_mutation :: "effect \<Rightarrow> bool" where
  "is_mutation (Call_update d i) = True"
| "is_mutation (Call_insert d) = True"
| "is_mutation (Call_delete i) = True"
| "is_mutation e = False"

fun is_remote :: "effect \<Rightarrow> bool" where
  "is_remote Call_select = True"
| "is_remote e = is_mutation e"

fun is_toast :: "effect \<Rightarrow> bool" where
  "is_toast (Toast k m) = True"
| "is_toast e = False"

definition remote :: "effect list \<Rightarrow> effect list" where
  "remote es = filter is_remote es"

definition mutations :: "effect list \<Rightarrow> effect list" where
  "mutations es = filter is_mutation es"

definition toasts :: "effect list \<Rightarrow> effect list" where
  "toasts es = filter is_toast es"

fun on_channel :: "toast_kind \<Rightarrow> effect \<Rightarrow> bool" where
  "on_channel k (Toast k' m) = (k = k')"
| "on_channel k e = False"

text \<open>The object a mutation call sends, if it sends one.\<close>

fun payload :: "effect \<Rightarrow> NewTask option" where
  "payload (Call_update d i) = Some d"
| "payload (Call_insert d) = Some d"
| "payload e = None"

text \<open>What a \<open>fetchData\<close> started on backend \<open>b\<close> toasts: its error, if the select fails.\<close>

definition fetch_toasts :: "'b supabase \<Rightarrow> 'b \<Rightarrow> effect list" where
  "fetch_toasts sb b =
     (case error (fst (select_order sb b)) of
        Some e \<Rightarrow> [Toast Error (js ''Error fetching tasks: '' @ message e)]
      | None \<Rightarrow> [])"

text \<open>
  The backend once a submit that got the response and backend \<open>rb\<close> from its mutation
  call has finished: as the call left it when the call failed, and after the select of
  the following \<open>fetchData\<close> when it succeeded.
\<close>

definition backend_after :: "'b supabase \<Rightarrow> response \<times> 'b \<Rightarrow> 'b" where
  "backend_after sb rb =
     (case error (fst rb) of
        Some e \<Rightarrow> snd rb
      | None \<Rightarrow> snd (select_order sb (snd rb)))"

text \<open>The validation of \<open>handleSubmit\<close> passes.\<close>

definition filled :: "NewTask \<Rightarrow> bool" where
  "filled d \<longleftrightarrow> \<not> falsy_string (trim (title d)) \<and> \<not> falsy_string (trim (desc d))"

subsection \<open>An in-memory table to run the handlers on\<close>

text \<open>
  A stand-in for the backend, used only to instantiate the theorems at concrete inputs:
  the rows in creation order, and a client that either works (\<open>online\<close>) or answers every
  call with the error "network error" and changes nothing.
\<close>

definition network_error :: PostgrestError where
  "network_error = \<lparr>message = js ''network error''\<rparr>"

definition memory_client :: "bool \<Rightarrow> Task list supabase" where
  "memory_client online =
     \<lparr>select_order = (\<lambda>rows.
        if online then (\<lparr>error = None, data = Some rows\<rparr>, rows)
        else (\<lparr>error = Some network_error, data = None\<rparr>, rows)),
      update_eq = (\<lambda>d i rows.
        if online then
          (\<lparr>error = None\<rparr>,
           map (\<lambda>t. if id_task t = i then t\<lparr>title := title d, desc := desc d\<rparr> else t) rows)
        else (\<lparr>error = Some network_error\<rparr>, rows)),
      insert_single = (\<lambda>d rows.
        if online then
          (\<lparr>error = None\<rparr>,
           rows @ [\<lparr>title = title d, desc = desc d,
                    id_task = fold max (map id_task rows) 0 + 1, created_at = js ''now''\<rparr>])
        else (\<lparr>error = Some network_error\<rparr>, rows)),
      delete_eq = (\<lambda>i rows.
        if online then (\<lparr>error = None\<rparr>, filter (\<lambda>t. id_task t \<noteq> i) rows)
        else (\<lparr>error = Some network_error\<rparr>, rows))\<rparr>"

definition milk :: Task where
  "milk = \<lparr>title = js ''Buy milk'', desc = js ''2%'', id_task = 5, created_at = js ''now''\<rparr>"

text \<open>
  Concrete runs. \<open>editing_milk\<close>: the table holds the task 5, the component mounts, the
  user clicks Edit on it and retypes the description. \<open>editing_zero\<close>: the same with a
  task whose id is 0. \<open>blank_title\<close>: the title is then replaced by three spaces.
  \<open>padded_draft\<close>: a fresh component with a draft that has blanks around its text.
  \<open>padded_edit\<close>: as \<open>editing_milk\<close>, with blanks around the retyped description.
  \<open>mounted_milk\<close>: the component just mounted on the table holding the task 5.
  \<open>null_data_client\<close>: a client whose select succeeds with \<open>data\<close> null.
\<close>

definition zero_task :: Task where
  "zero_task = \<lparr>title = js ''Buy milk'', desc = js ''2%'', id_task = 0, created_at = js ''now''\<rparr>"

definition editing_milk :: "Task list state" where
  "editing_milk =
     changeDesc (js ''Whole'') (handleEdit milk (mount (memory_client True) [milk]))"

definition editing_zero :: "Task list state" where
  "editing_zero =
     changeDesc (js ''Whole'') (handleEdit zero_task (mount (memory_client True) [zero_task]))"

definition blank_title :: "Task list state" where
  "blank_title = changeTitle (js ''   '') editing_milk"

definition padded_draft :: "Task list state" where
  "padded_draft =
     changeDesc (js ''2% '') (changeTitle (js ''  Buy milk '') (mount (memory_client True) []))"

definition padded_edit :: "Task list state" where
  "padded_edit =
     changeDesc (js '' Whole '') (handleEdit milk (mount (memory_client True) [milk]))"

definition null_data_client :: "Task list supabase" where
  "null_data_client =
     (memory_client True)\<lparr>select_order := (\<lambda>rows. (\<lparr>error = None, data = None\<rparr>, rows))\<rparr>"

definition mounted_milk :: "Task list state" where
  "mounted_milk = mount (memory_client True) [milk]"

section \<open>Properties\<close>

subsection \<open>Helper facts\<close>

lemmas run_defs =
  mount_def initial_def fetchData_def handleEdit_def changeDesc_def changeTitle_def
  handleSubmit_def updateBranch_def insertBranch_def resetAndFetch_def handleDelete_def
  cancelEdit_def toast_def memory_client_def network_error_def Let_def

lemmas string_defs = js_def trim_def isWhiteSpace_def falsy_string_def filled_def

lemma NewTask_eta [simp]: "\<lparr>title = title (d::NewTask), desc = desc d\<rparr> = d"
  by simp

lemma effects_fetchData:
  "effects (fetchData sb s) = effects s @ Call_select # fetch_toasts sb (backend s)"
  by (cases "select_order sb (backend s)")
     (simp add: fetchData_def fetch_toasts_def toast_def Let_def split: option.split)

lemma newTask_fetchData: "newTask (fetchData sb s) = newTask s"
  by (cases "select_order sb (backend s)")
     (simp add: fetchData_def toast_def Let_def split: option.split)

lemma editingId_fetchData: "editingId (fetchData sb s) = editingId s"
  by (cases "select_order sb (backend s)")
     (simp add: fetchData_def toast_def Let_def split: option.split)

lemma mutations_fetch_toasts: "mutations (fetch_toasts sb b) = []"
  by (simp add: fetch_toasts_def mutations_def split: option.split)

lemma effects_updateBranch:
  "effects (updateBranch sb i s) = effects s @ Call_update (newTask s) i #
     (case error (fst (update_eq sb (newTask s) i (backend s))) of
        Some e \<Rightarrow> [Toast Error (js ''Error updating task: '' @ message e)]
      | None \<Rightarrow> Toast Success (js ''Task updated successfully!'') # Call_select #
          fetch_toasts sb (snd (update_eq sb (newTask s) i (backend s))))"
  by (cases "update_eq sb (newTask s) i (backend s)")
     (simp add: updateBranch_def resetAndFetch_def effects_fetchData toast_def Let_def
        split: option.split)

lemma effects_insertBranch:
  "effects (insertBranch sb s) = effects s @ Call_insert (newTask s) #
     (case error (fst (insert_single sb (newTask s) (backend s))) of
        Some e \<Rightarrow> [Toast Error (js ''Error inserting task: '' @ message e)]
      | None \<Rightarrow> Toast Success (js ''Task added successfully!'') # Call_select #
          fetch_toasts sb (snd (insert_single sb (newTask s) (backend s))))"
  by (cases "insert_single sb (newTask s) (backend s)")
     (simp add: insertBranch_def resetAndFetch_def effects_fetchData toast_def Let_def
        split: option.split)

lemma updateBranch_failed:
  "error (fst (update_eq sb (newTask s) i (backend s))) = Some e \<Longrightarrow>
   updateBranch sb i s =
     s\<lparr>backend := snd (update_eq sb (newTask s) i (backend s)),
       effects := effects s @
         [Call_update (newTask s) i, Toast Error (js ''Error updating task: '' @ message e)]\<rparr>"
  by (cases "update_eq sb (newTask s) i (backend s)")
     (simp add: updateBranch_def toast_def Let_def)

lemma insertBranch_failed:
  "error (fst (insert_single sb (newTask s) (backend s))) = Some e \<Longrightarrow>
   insertBranch sb s =
     s\<lparr>backend := snd (insert_single sb (newTask s) (backend s)),
       effects := effects s @
         [Call_insert (newTask s), Toast Error (js ''Error inserting task: '' @ message e)]\<rparr>"
  by (cases "insert_single sb (newTask s) (backend s)")
     (simp add: insertBranch_def toast_def Let_def)

lemma updateBranch_ok:
  "error (fst (update_eq sb (newTask s) i (backend s))) = None \<Longrightarrow>
   updateBranch sb i s =
     fetchData sb
       (s\<lparr>backend := snd (update_eq sb (newTask s) i (backend s)),
          effects := effects s @
            [Call_update (newTask s) i, Toast Success (js ''Task updated successfully!'')],
          editingId := None,
          newTask := \<lparr>title = [], desc = []\<rparr>\<rparr>)"
  by (cases "update_eq sb (newTask s) i (backend s)")
     (simp add: updateBranch_def resetAndFetch_def toast_def Let_def)

lemma insertBranch_ok:
  "error (fst (insert_single sb (newTask s) (backend s))) = None \<Longrightarrow>
   insertBranch sb s =
     fetchData sb
       (s\<lparr>backend := snd (insert_single sb (newTask s) (backend s)),
          effects := effects s @
            [Call_insert (newTask s), Toast Success (js ''Task added successfully!'')],
          newTask := \<lparr>title = [], desc = []\<rparr>\<rparr>)"
  by (cases "insert_single sb (newTask s) (backend s)")
     (simp add: insertBranch_def resetAndFetch_def toast_def Let_def)

lemma handleSubmit_update:
  "filled (newTask s) \<Longrightarrow> editingId s = Some i \<Longrightarrow> i \<noteq> 0 \<Longrightarrow>
   handleSubmit sb s = updateBranch sb i s"
  by (simp add: handleSubmit_def filled_def)

lemma handleSubmit_insert:
  "filled (newTask s) \<Longrightarrow> \<not> truthy (editingId s) \<Longrightarrow>
   handleSubmit sb s = insertBranch sb s"
  by (cases "editingId s") (simp_all add: handleSubmit_def filled_def)


lemma editing_zero_eq:
  "editing_zero =
     \<lparr>tasks = [zero_task], newTask = \<lparr>title = js ''Buy milk'', desc = js ''Whole''\<rparr>,
      editingId = Some 0, backend = [zero_task], effects = [Call_select]\<rparr>"
  by (simp add: editing_zero_def run_defs zero_task_def)

lemma editing_milk_eq:
  "editing_milk =
     \<lparr>tasks = [milk], newTask = \<lparr>title = js ''Buy milk'', desc = js ''Whole''\<rparr>,
      editingId = Some 5, backend = [milk], effects = [Call_select]\<rparr>"
  by (simp add: editing_milk_def run_defs milk_def)

lemma filled_milk: "filled \<lparr>title = js ''Buy milk'', desc = js ''Whole''\<rparr>"
  by (simp add: string_defs)

lemma editingId_padded: "editingId padded_draft = None"
  by (simp add: padded_draft_def run_defs)

lemma newTask_padded: "newTask padded_draft = \<lparr>title = js ''  Buy milk '', desc = js ''2% ''\<rparr>"
  by (simp add: padded_draft_def run_defs)

lemma filled_padded: "filled \<lparr>title = js ''  Buy milk '', desc = js ''2% ''\<rparr>"
  by (simp add: string_defs)

lemma mounted_milk_eq:
  "mounted_milk =
     \<lparr>tasks = [milk], newTask = \<lparr>title = [], desc = []\<rparr>, editingId = None,
      backend = [milk], effects = [Call_select]\<rparr>"
  by (simp add: mounted_milk_def run_defs)

lemma handleDelete_failed:
  "error (fst (delete_eq sb i (backend s))) = Some e \<Longrightarrow>
   handleDelete sb i True s =
     s\<lparr>backend := snd (delete_eq sb i (backend s)),
       effects := effects s @
         [Confirm (js ''Are you sure you want to delete this task?''), Call_delete i,
          Toast Error (js ''Error deleting task: '' @ message e)]\<rparr>"
  by (cases "delete_eq sb i (backend s)") (simp add: handleDelete_def toast_def Let_def)

lemma handleDelete_ok:
  "error (fst (delete_eq sb i (backend s))) = None \<Longrightarrow>
   handleDelete sb i True s =
     fetchData sb
       (s\<lparr>backend := snd (delete_eq sb i (backend s)),
          effects := effects s @
            [Confirm (js ''Are you sure you want to delete this task?''), Call_delete i,
             Toast Info ([0xD83D, 0xDDD1, 0xFE0F] @ js '' Task deleted successfully!'')]\<rparr>)"
  by (cases "delete_eq sb i (backend s)") (simp add: handleDelete_def toast_def Let_def)

lemma handleDelete_declined_eq:
  "handleDelete sb i False s =
     s\<lparr>effects := effects s @ [Confirm (js ''Are you sure you want to delete this task?'')]\<rparr>"
  by (simp add: handleDelete_def Let_def)

lemma cancelShown_handleEdit: "cancelShown (handleEdit task s) \<longleftrightarrow> id_task task \<noteq> 0"
  by (simp add: cancelShown_def handleEdit_def)

lemma backend_fetchData: "backend (fetchData sb s) = snd (select_order sb (backend s))"
  by (cases "select_order sb (backend s)")
     (simp add: fetchData_def toast_def Let_def split: option.split)

lemma backend_updateBranch:
  "backend (updateBranch sb i s) = backend_after sb (update_eq sb (newTask s) i (backend s))"
  by (cases "error (fst (update_eq sb (newTask s) i (backend s)))")
     (simp_all add: updateBranch_ok updateBranch_failed backend_fetchData backend_after_def)

lemma backend_insertBranch:
  "backend (insertBranch sb s) = backend_after sb (insert_single sb (newTask s) (backend s))"
  by (cases "error (fst (insert_single sb (newTask s) (backend s)))")
     (simp_all add: insertBranch_ok insertBranch_failed backend_fetchData backend_after_def)

lemma padded_edit_eq:
  "padded_edit =
     \<lparr>tasks = [milk], newTask = \<lparr>title = js ''Buy milk'', desc = js '' Whole ''\<rparr>,
      editingId = Some 5, backend = [milk], effects = [Call_select]\<rparr>"
  by (simp add: padded_edit_def run_defs milk_def)

lemma filled_padded_edit: "filled \<lparr>title = js ''Buy milk'', desc = js '' Whole ''\<rparr>"
  by (simp add: string_defs)

lemma backend_padded: "backend padded_draft = []"
  by (simp add: padded_draft_def run_defs)

lemma mutations_updateBranch:
  "mutations (added s (updateBranch sb i s)) = [Call_update (newTask s) i]"
  by (simp add: effects_updateBranch added_def mutations_def mutations_fetch_toasts [unfolded mutations_def]
        split: option.split)

lemma mutations_insertBranch:
  "mutations (added s (insertBranch sb s)) = [Call_insert (newTask s)]"
  by (simp add: effects_insertBranch added_def mutations_def mutations_fetch_toasts [unfolded mutations_def]
        split: option.split)

lemma submit_updates_when_truthy:
  "filled (newTask s) \<Longrightarrow> editingId s = Some i \<Longrightarrow> i \<noteq> 0 \<Longrightarrow>
   mutations (added s (handleSubmit sb s)) = [Call_update (newTask s) i]"
  by (simp add: handleSubmit_update mutations_updateBranch)

lemma submit_inserts_when_falsy:
  "filled (newTask s) \<Longrightarrow> \<not> truthy (editingId s) \<Longrightarrow>
   mutations (added s (handleSubmit sb s)) = [Call_insert (newTask s)]"
  by (simp add: handleSubmit_insert mutations_insertBranch)

lemma submit_update_succeeds:
  "filled (newTask s) \<Longrightarrow> editingId s = Some i \<Longrightarrow> i \<noteq> 0 \<Longrightarrow>
   error (fst (update_eq sb (newTask s) i (backend s))) = None \<Longrightarrow>
   added s (handleSubmit sb s) =
     [Call_update (newTask s) i, Toast Success (js ''Task updated successfully!''), Call_select]
     @ fetch_toasts sb (snd (update_eq sb (newTask s) i (backend s)))
   \<and> newTask (handleSubmit sb s) = \<lparr>title = [], desc = []\<rparr>
   \<and> editingId (handleSubmit sb s) = None"
  by (simp add: handleSubmit_update updateBranch_ok effects_fetchData newTask_fetchData
        editingId_fetchData added_def)

lemma submit_insert_succeeds:
  "filled (newTask s) \<Longrightarrow> \<not> truthy (editingId s) \<Longrightarrow>
   error (fst (insert_single sb (newTask s) (backend s))) = None \<Longrightarrow>
   added s (handleSubmit sb s) =
     [Call_insert (newTask s), Toast Success (js ''Task added successfully!''), Call_select]
     @ fetch_toasts sb (snd (insert_single sb (newTask s) (backend s)))
   \<and> newTask (handleSubmit sb s) = \<lparr>title = [], desc = []\<rparr>
   \<and> editingId (handleSubmit sb s) = editingId s"
  by (simp add: handleSubmit_insert insertBranch_ok effects_fetchData newTask_fetchData
        editingId_fetchData added_def)

subsection \<open>Validation\<close>

text \<open>
  C1. When the title or the description of the draft is empty after trimming,
  \<open>handleSubmit\<close> shows one warning and does nothing else: no call to the client, and
  the tasks, the draft, \<open>editingId\<close> and the backend are as before.
\<close>

theorem submit_blank_rejected:
  assumes "trim (title (newTask s)) = [] \<or> trim (desc (newTask s)) = []"
  shows "added s (handleSubmit sb s) =
           [Toast Warn ([0x26A0, 0xFE0F] @ js '' Please fill in both the title and description!'')]
         \<and> remote (added s (handleSubmit sb s)) = []
         \<and> tasks (handleSubmit sb s) = tasks s
         \<and> newTask (handleSubmit sb s) = newTask s
         \<and> editingId (handleSubmit sb s) = editingId s
         \<and> backend (handleSubmit sb s) = backend s"
proof -
  from assms have "handleSubmit sb s =
      toast Warn ([0x26A0, 0xFE0F] @ js '' Please fill in both the title and description!'') s"
    by (auto simp add: handleSubmit_def falsy_string_def)
  then show ?thesis
    by (simp add: toast_def added_def remote_def)
qed

theorem submit_blank_rejected_witness:
  "(trim (title (newTask blank_title)) = [] \<or> trim (desc (newTask blank_title)) = [])
   \<and> added blank_title (handleSubmit (memory_client True) blank_title) =
       [Toast Warn ([0x26A0, 0xFE0F] @ js '' Please fill in both the title and description!'')]
   \<and> backend (handleSubmit (memory_client True) blank_title) = [milk]"
proof -
  have h: "trim (title (newTask blank_title)) = [] \<or> trim (desc (newTask blank_title)) = []"
    by (simp add: blank_title_def changeTitle_def string_defs)
  have b: "backend blank_title = [milk]"
    by (simp add: blank_title_def changeTitle_def editing_milk_eq)
  from submit_blank_rejected [OF h, of "memory_client True"] h b show ?thesis by simp
qed

subsection \<open>Refresh\<close>

text \<open>
  C3. \<open>fetchData\<close> issues one select. When the response carries no error, the tasks
  become the rows of the response (the empty list when \<open>data\<close> is null) and nothing is
  toasted. When it carries an error, the tasks stay as they were, and the only effects are
  that one select and one error toast whose text ends with the message of the backend:
  the select is not repeated.
\<close>

theorem fetchData_replaces_or_reports:
  "(error (fst (select_order sb (backend s))) = None \<longrightarrow>
      tasks (fetchData sb s) =
        (case data (fst (select_order sb (backend s))) of Some d \<Rightarrow> d | None \<Rightarrow> [])
      \<and> added s (fetchData sb s) = [Call_select])
   \<and> (\<forall>e. error (fst (select_order sb (backend s))) = Some e \<longrightarrow>
      tasks (fetchData sb s) = tasks s
      \<and> added s (fetchData sb s) =
          [Call_select, Toast Error (js ''Error fetching tasks: '' @ message e)])"
  by (cases "select_order sb (backend s)")
     (simp add: fetchData_def toast_def added_def)

theorem fetchData_replaces_or_reports_witness:
  "(error (fst (select_order (memory_client True) (backend (editing_milk\<lparr>backend := [zero_task]\<rparr>)))) = None
    \<and> tasks (editing_milk\<lparr>backend := [zero_task]\<rparr>) = [milk]
    \<and> tasks (fetchData (memory_client True) (editing_milk\<lparr>backend := [zero_task]\<rparr>)) = [zero_task]
    \<and> added (editing_milk\<lparr>backend := [zero_task]\<rparr>)
          (fetchData (memory_client True) (editing_milk\<lparr>backend := [zero_task]\<rparr>)) = [Call_select])
   \<and> (error (fst (select_order (null_data_client) (backend editing_milk))) = None
    \<and> tasks (fetchData null_data_client editing_milk) = [])
   \<and> (error (fst (select_order (memory_client False) (backend editing_milk))) = Some network_error
    \<and> tasks (fetchData (memory_client False) editing_milk) = [milk]
    \<and> added editing_milk (fetchData (memory_client False) editing_milk) =
          [Call_select, Toast Error (js ''Error fetching tasks: '' @ js ''network error'')])"
proof -
  have ok: "error (fst (select_order (memory_client True) b)) = None
    \<and> data (fst (select_order (memory_client True) b)) = Some b" for b
    by (simp add: memory_client_def)
  have nd: "error (fst (select_order null_data_client b)) = None
    \<and> data (fst (select_order null_data_client b)) = None" for b
    by (simp add: null_data_client_def)
  have ko: "error (fst (select_order (memory_client False) b)) = Some network_error" for b
    by (simp add: memory_client_def)
  have m: "message network_error = js ''network error''"
    by (simp add: network_error_def)
  have t: "tasks editing_milk = [milk]"
    by (simp add: editing_milk_eq)
  from fetchData_replaces_or_reports [of "memory_client True" "editing_milk\<lparr>backend := [zero_task]\<rparr>"]
       fetchData_replaces_or_reports [of null_data_client editing_milk]
       fetchData_replaces_or_reports [of "memory_client False" editing_milk]
       ok nd ko m t
  show ?thesis by simp
qed

subsection \<open>Submit\<close>

text \<open>
  C5. When the update issued by \<open>handleSubmit\<close> returns an error, the handler toasts the
  error and stops: \<open>editingId\<close>, the draft and the tasks keep their values and no select
  follows the update. The same holds when the insert returns an error.
\<close>

theorem submit_failure_keeps_state:
  "(\<forall>i e. filled (newTask s) \<and> editingId s = Some i \<and> i \<noteq> 0
        \<and> error (fst (update_eq sb (newTask s) i (backend s))) = Some e \<longrightarrow>
      added s (handleSubmit sb s) =
        [Call_update (newTask s) i, Toast Error (js ''Error updating task: '' @ message e)]
      \<and> editingId (handleSubmit sb s) = editingId s
      \<and> newTask (handleSubmit sb s) = newTask s
      \<and> tasks (handleSubmit sb s) = tasks s)
   \<and> (\<forall>e. filled (newTask s) \<and> \<not> truthy (editingId s)
        \<and> error (fst (insert_single sb (newTask s) (backend s))) = Some e \<longrightarrow>
      added s (handleSubmit sb s) =
        [Call_insert (newTask s), Toast Error (js ''Error inserting task: '' @ message e)]
      \<and> editingId (handleSubmit sb s) = editingId s
      \<and> newTask (handleSubmit sb s) = newTask s
      \<and> tasks (handleSubmit sb s) = tasks s)"
  by (simp add: handleSubmit_update handleSubmit_insert updateBranch_failed insertBranch_failed
        added_def)


theorem submit_failure_keeps_state_witness:
  "(filled (newTask editing_milk) \<and> editingId editing_milk = Some 5 \<and> (5::int) \<noteq> 0
     \<and> error (fst (update_eq (memory_client False) (newTask editing_milk) 5 (backend editing_milk)))
         = Some network_error
     \<and> added editing_milk (handleSubmit (memory_client False) editing_milk) =
        [Call_update \<lparr>title = js ''Buy milk'', desc = js ''Whole''\<rparr> 5,
         Toast Error (js ''Error updating task: '' @ js ''network error'')]
     \<and> editingId (handleSubmit (memory_client False) editing_milk) = Some 5
     \<and> newTask (handleSubmit (memory_client False) editing_milk) =
         \<lparr>title = js ''Buy milk'', desc = js ''Whole''\<rparr>)
   \<and> (filled (newTask padded_draft) \<and> \<not> truthy (editingId padded_draft)
     \<and> error (fst (insert_single (memory_client False) (newTask padded_draft) (backend padded_draft)))
         = Some network_error
     \<and> added padded_draft (handleSubmit (memory_client False) padded_draft) =
        [Call_insert \<lparr>title = js ''  Buy milk '', desc = js ''2% ''\<rparr>,
         Toast Error (js ''Error inserting task: '' @ js ''network error'')]
     \<and> newTask (handleSubmit (memory_client False) padded_draft) =
         \<lparr>title = js ''  Buy milk '', desc = js ''2% ''\<rparr>)"
proof -
  have u: "error (fst (update_eq (memory_client False) d i b)) = Some network_error" for d i b
    by (simp add: memory_client_def)
  have n: "error (fst (insert_single (memory_client False) d b)) = Some network_error" for d b
    by (simp add: memory_client_def)
  have m: "message network_error = js ''network error''"
    by (simp add: network_error_def)
  from submit_failure_keeps_state [of editing_milk "memory_client False"] submit_failure_keeps_state [of padded_draft "memory_client False"]
       u n m filled_milk filled_padded
  show ?thesis
    by (simp add: editing_milk_eq editingId_padded newTask_padded)
qed


text \<open>
  C10. A draft that passes the validation is sent and stored as it is. The one mutation
  call of \<open>handleSubmit\<close>, update or insert, carries the draft's own title and
  description, blanks at the ends included, and the backend afterwards is what the client
  makes of the backend before when it is given exactly that draft (followed by the select
  of the refresh when the call succeeds). \<open>trim\<close> is applied only in the validation.
\<close>

theorem submit_sends_untrimmed:
  assumes "filled (newTask s)"
  shows "map payload (mutations (added s (handleSubmit sb s))) = [Some (newTask s)]
    \<and> (\<forall>i. editingId s = Some i \<and> i \<noteq> 0 \<longrightarrow>
          mutations (added s (handleSubmit sb s)) = [Call_update (newTask s) i]
          \<and> backend (handleSubmit sb s) =
              backend_after sb (update_eq sb (newTask s) i (backend s)))
    \<and> (\<not> truthy (editingId s) \<longrightarrow>
          mutations (added s (handleSubmit sb s)) = [Call_insert (newTask s)]
          \<and> backend (handleSubmit sb s) =
              backend_after sb (insert_single sb (newTask s) (backend s)))"
proof (cases "truthy (editingId s)")
  case True
  then obtain i where "editingId s = Some i" "i \<noteq> 0"
    by (cases "editingId s") simp_all
  with assms show ?thesis
    by (simp add: handleSubmit_update mutations_updateBranch backend_updateBranch)
next
  case False
  with assms have "handleSubmit sb s = insertBranch sb s"
    by (simp add: handleSubmit_insert)
  with assms False show ?thesis
    by (auto simp add: mutations_insertBranch backend_insertBranch)
qed

theorem submit_sends_untrimmed_witness:
  "(filled (newTask padded_draft) \<and> \<not> truthy (editingId padded_draft)
    \<and> trim (title (newTask padded_draft)) \<noteq> title (newTask padded_draft)
    \<and> trim (desc (newTask padded_draft)) \<noteq> desc (newTask padded_draft)
    \<and> mutations (added padded_draft (handleSubmit (memory_client True) padded_draft)) =
        [Call_insert \<lparr>title = js ''  Buy milk '', desc = js ''2% ''\<rparr>]
    \<and> backend (handleSubmit (memory_client True) padded_draft) =
        [\<lparr>title = js ''  Buy milk '', desc = js ''2% '', id_task = 1, created_at = js ''now''\<rparr>])
   \<and> (filled (newTask padded_edit) \<and> editingId padded_edit = Some 5 \<and> (5::int) \<noteq> 0
    \<and> trim (desc (newTask padded_edit)) \<noteq> desc (newTask padded_edit)
    \<and> mutations (added padded_edit (handleSubmit (memory_client True) padded_edit)) =
        [Call_update \<lparr>title = js ''Buy milk'', desc = js '' Whole ''\<rparr> 5]
    \<and> backend (handleSubmit (memory_client True) padded_edit) =
        [\<lparr>title = js ''Buy milk'', desc = js '' Whole '', id_task = 5, created_at = js ''now''\<rparr>])"
proof -
  have p: "filled (newTask padded_draft)"
    by (simp add: newTask_padded filled_padded)
  have q: "filled (newTask padded_edit)"
    by (simp add: padded_edit_eq filled_padded_edit)
  have t: "trim (title (newTask padded_draft)) \<noteq> title (newTask padded_draft)"
    "trim (desc (newTask padded_draft)) \<noteq> desc (newTask padded_draft)"
    by (simp_all add: newTask_padded js_def trim_def isWhiteSpace_def)
  have u: "trim (desc (newTask padded_edit)) \<noteq> desc (newTask padded_edit)"
    by (simp add: padded_edit_eq js_def trim_def isWhiteSpace_def)
  have ins: "backend_after (memory_client True)
        (insert_single (memory_client True) \<lparr>title = js ''  Buy milk '', desc = js ''2% ''\<rparr> []) =
      [\<lparr>title = js ''  Buy milk '', desc = js ''2% '', id_task = 1, created_at = js ''now''\<rparr>]"
    by (simp add: backend_after_def memory_client_def)
  have upd: "backend_after (memory_client True)
        (update_eq (memory_client True) \<lparr>title = js ''Buy milk'', desc = js '' Whole ''\<rparr> 5 [milk]) =
      [\<lparr>title = js ''Buy milk'', desc = js '' Whole '', id_task = 5, created_at = js ''now''\<rparr>]"
    by (simp add: backend_after_def memory_client_def milk_def)
  have e: "editingId padded_edit = Some 5" "backend padded_edit = [milk]"
    "newTask padded_edit = \<lparr>title = js ''Buy milk'', desc = js '' Whole ''\<rparr>"
    by (simp_all add: padded_edit_eq)
  from submit_sends_untrimmed [OF p, of "memory_client True"]
       submit_sends_untrimmed [OF q, of "memory_client True"]
       p q t u ins upd e
  show ?thesis
    by (simp add: newTask_padded editingId_padded backend_padded)
qed

text \<open>
  C2. A valid submit issues exactly one mutation call, never both an insert and an update: an
  update when \<open>editingId\<close> is a non-zero number (\<open>submit_updates_when_truthy\<close>) and
  an insert when it is null (\<open>submit_inserts_when_falsy\<close>). When \<open>editingId\<close> is set
  to 0, after Edit was clicked on a task with id 0, the test \<open>if (editingId)\<close> fails and
  the submit inserts a second row instead of updating row 0.
\<close>

theorem submit_edit_zero_inserts:
  "editingId editing_zero = Some 0
   \<and> filled (newTask editing_zero)
   \<and> mutations (added editing_zero (handleSubmit (memory_client True) editing_zero)) =
       [Call_insert \<lparr>title = js ''Buy milk'', desc = js ''Whole''\<rparr>]
   \<and> backend (handleSubmit (memory_client True) editing_zero) =
       [zero_task,
        \<lparr>title = js ''Buy milk'', desc = js ''Whole'', id_task = 1, created_at = js ''now''\<rparr>]"
proof -
  have f: "filled (newTask editing_zero)"
    by (simp add: editing_zero_eq filled_milk)
  have e: "editingId editing_zero = Some 0"
    by (simp add: editing_zero_eq)
  then have i: "handleSubmit (memory_client True) editing_zero =
      insertBranch (memory_client True) editing_zero"
    using f by (simp add: handleSubmit_insert)
  have b: "backend (insertBranch (memory_client True) editing_zero) =
      [zero_task,
        \<lparr>title = js ''Buy milk'', desc = js ''Whole'', id_task = 1, created_at = js ''now''\<rparr>]"
    by (simp add: editing_zero_eq insertBranch_def resetAndFetch_def fetchData_def toast_def
          memory_client_def Let_def zero_task_def)
  have n: "newTask editing_zero = \<lparr>title = js ''Buy milk'', desc = js ''Whole''\<rparr>"
    by (simp add: editing_zero_eq)
  from f e i b n show ?thesis
    by (simp add: mutations_insertBranch)
qed

text \<open>
  C4. A successful submit toasts a success, empties the draft and runs \<open>fetchData\<close>,
  and leaves \<open>editingId\<close> null when that was null or a non-zero number
  (\<open>submit_update_succeeds\<close>, \<open>submit_insert_succeeds\<close>). When \<open>editingId\<close> is 0
  the insert branch runs, which never calls \<open>setEditingId(null)\<close>: after the successful
  submit \<open>editingId\<close> is still 0.
\<close>

theorem submit_edit_zero_keeps_editingId:
  "editingId editing_zero = Some 0
   \<and> filled (newTask editing_zero)
   \<and> error (fst (insert_single (memory_client True) (newTask editing_zero) (backend editing_zero)))
       = None
   \<and> toasts (added editing_zero (handleSubmit (memory_client True) editing_zero)) =
       [Toast Success (js ''Task added successfully!'')]
   \<and> newTask (handleSubmit (memory_client True) editing_zero) = \<lparr>title = [], desc = []\<rparr>
   \<and> editingId (handleSubmit (memory_client True) editing_zero) = Some 0"
proof -
  have f: "filled (newTask editing_zero)"
    by (simp add: editing_zero_eq filled_milk)
  have e: "editingId editing_zero = Some 0"
    by (simp add: editing_zero_eq)
  have ok: "error (fst (insert_single (memory_client True) d b)) = None" for d b
    by (simp add: memory_client_def)
  have ft: "fetch_toasts (memory_client True) b = []" for b
    by (simp add: fetch_toasts_def memory_client_def)
  from submit_insert_succeeds [of editing_zero "memory_client True"] f e ok ft
  show ?thesis
    by (simp add: toasts_def)
qed

subsection \<open>Delete\<close>

text \<open>
  A confirmed, successful delete puts nothing on the success channel: its one toast is
  \<open>toast.info\<close>.
\<close>

theorem delete_success_not_on_success_channel:
  "error (fst (delete_eq (memory_client True) 5 (backend mounted_milk))) = None
   \<and> filter (on_channel Success)
        (added mounted_milk (handleDelete (memory_client True) 5 True mounted_milk)) = []
   \<and> toasts (added mounted_milk (handleDelete (memory_client True) 5 True mounted_milk)) =
        [Toast Info ([0xD83D, 0xDDD1, 0xFE0F] @ js '' Task deleted successfully!'')]"
  by (simp add: mounted_milk_eq run_defs added_def toasts_def)

text \<open>
  C6. A confirmed \<open>handleDelete\<close> issues the delete. When it returns an error, the error
  is toasted, the tasks stay as they were and no select follows. When it succeeds, the
  deletion is reported on the info channel and \<open>fetchData\<close> runs.
\<close>

theorem handleDelete_confirmed:
  "(\<forall>e. error (fst (delete_eq sb i (backend s))) = Some e \<longrightarrow>
      added s (handleDelete sb i True s) =
        [Confirm (js ''Are you sure you want to delete this task?''), Call_delete i,
         Toast Error (js ''Error deleting task: '' @ message e)]
      \<and> tasks (handleDelete sb i True s) = tasks s)
   \<and> (error (fst (delete_eq sb i (backend s))) = None \<longrightarrow>
      handleDelete sb i True s =
        fetchData sb
          (s\<lparr>backend := snd (delete_eq sb i (backend s)),
             effects := effects s @
               [Confirm (js ''Are you sure you want to delete this task?''), Call_delete i,
                Toast Info ([0xD83D, 0xDDD1, 0xFE0F] @ js '' Task deleted successfully!'')]\<rparr>)
      \<and> added s (handleDelete sb i True s) =
        [Confirm (js ''Are you sure you want to delete this task?''), Call_delete i,
         Toast Info ([0xD83D, 0xDDD1, 0xFE0F] @ js '' Task deleted successfully!''), Call_select]
        @ fetch_toasts sb (snd (delete_eq sb i (backend s))))"
  by (simp add: handleDelete_failed handleDelete_ok effects_fetchData added_def)

theorem handleDelete_confirmed_witness:
  "(error (fst (delete_eq (memory_client False) 5 (backend mounted_milk))) = Some network_error
     \<and> added mounted_milk (handleDelete (memory_client False) 5 True mounted_milk) =
        [Confirm (js ''Are you sure you want to delete this task?''), Call_delete 5,
         Toast Error (js ''Error deleting task: '' @ js ''network error'')]
     \<and> tasks (handleDelete (memory_client False) 5 True mounted_milk) = [milk])
   \<and> (error (fst (delete_eq (memory_client True) 5 (backend mounted_milk))) = None
     \<and> added mounted_milk (handleDelete (memory_client True) 5 True mounted_milk) =
        [Confirm (js ''Are you sure you want to delete this task?''), Call_delete 5,
         Toast Info ([0xD83D, 0xDDD1, 0xFE0F] @ js '' Task deleted successfully!''), Call_select]
     \<and> tasks (handleDelete (memory_client True) 5 True mounted_milk) = [])"
proof -
  have ko: "error (fst (delete_eq (memory_client False) i b)) = Some network_error" for i b
    by (simp add: memory_client_def)
  have ok: "error (fst (delete_eq (memory_client True) i b)) = None" for i b
    by (simp add: memory_client_def)
  have del: "snd (delete_eq (memory_client True) 5 [milk]) = []"
    by (simp add: memory_client_def milk_def)
  have sel: "select_order (memory_client True) b = (\<lparr>error = None, data = Some b\<rparr>, b)" for b
    by (simp add: memory_client_def)
  have m: "message network_error = js ''network error''"
    by (simp add: network_error_def)
  from handleDelete_confirmed [of "memory_client False" 5 mounted_milk] handleDelete_confirmed [of "memory_client True" 5 mounted_milk]
       ko ok del sel m
  show ?thesis
    by (simp add: mounted_milk_eq fetch_toasts_def fetchData_def Let_def added_def)
qed

text \<open>
  C7. When the user declines the prompt, \<open>handleDelete\<close> does nothing after the prompt
  itself: no call to the client, no toast, and the tasks, the draft, \<open>editingId\<close> and the
  backend are as before.
\<close>

theorem handleDelete_declined:
  "handleDelete sb i False s =
     s\<lparr>effects := effects s @ [Confirm (js ''Are you sure you want to delete this task?'')]\<rparr>
   \<and> remote (added s (handleDelete sb i False s)) = []
   \<and> toasts (added s (handleDelete sb i False s)) = []
   \<and> tasks (handleDelete sb i False s) = tasks s
   \<and> newTask (handleDelete sb i False s) = newTask s
   \<and> editingId (handleDelete sb i False s) = editingId s
   \<and> backend (handleDelete sb i False s) = backend s"
  by (simp add: handleDelete_declined_eq added_def remote_def toasts_def)

theorem handleDelete_declined_witness:
  "remote (added editing_milk (handleDelete (memory_client True) 5 False editing_milk)) = []
   \<and> toasts (added editing_milk (handleDelete (memory_client True) 5 False editing_milk)) = []
   \<and> tasks (handleDelete (memory_client True) 5 False editing_milk) = [milk]
   \<and> backend (handleDelete (memory_client True) 5 False editing_milk) = [milk]
   \<and> editingId (handleDelete (memory_client True) 5 False editing_milk) = Some 5"
proof -
  have t: "tasks editing_milk = [milk]" and b: "backend editing_milk = [milk]"
    and e: "editingId editing_milk = Some 5"
    by (simp_all add: editing_milk_eq)
  from handleDelete_declined [of "memory_client True" 5 editing_milk] t b e show ?thesis
    by (simp add: added_def remote_def toasts_def)
qed

text \<open>
  C9. \<open>handleDelete\<close> never changes the draft or \<open>editingId\<close>, whatever the user
  answers and whatever the delete returns; deleting the task under edit leaves
  \<open>editingId\<close> on the deleted id.
\<close>

theorem handleDelete_keeps_draft:
  "newTask (handleDelete sb i confirmDelete s) = newTask s
   \<and> editingId (handleDelete sb i confirmDelete s) = editingId s"
proof (cases confirmDelete)
  case False
  then show ?thesis by (simp add: handleDelete_declined_eq)
next
  case True
  show ?thesis
  proof (cases "error (fst (delete_eq sb i (backend s)))")
    case None
    with True show ?thesis
      by (simp add: handleDelete_ok newTask_fetchData editingId_fetchData)
  next
    case (Some e)
    with True show ?thesis
      by (simp add: handleDelete_failed)
  qed
qed

theorem handleDelete_keeps_draft_witness:
  "editingId editing_milk = Some 5
   \<and> error (fst (delete_eq (memory_client True) 5 (backend editing_milk))) = None
   \<and> tasks (handleDelete (memory_client True) 5 True editing_milk) = []
   \<and> editingId (handleDelete (memory_client True) 5 True editing_milk) = Some 5
   \<and> newTask (handleDelete (memory_client True) 5 True editing_milk) =
       \<lparr>title = js ''Buy milk'', desc = js ''Whole''\<rparr>
   \<and> editingId (handleDelete (memory_client False) 5 True editing_milk) = Some 5
   \<and> editingId (handleDelete (memory_client True) 5 False editing_milk) = Some 5"
proof -
  have t: "tasks (handleDelete (memory_client True) 5 True editing_milk) = []"
    by (simp add: editing_milk_eq run_defs milk_def)
  have ok: "error (fst (delete_eq (memory_client True) i b)) = None" for i b
    by (simp add: memory_client_def)
  from handleDelete_keeps_draft [of "memory_client True" 5 True editing_milk]
       handleDelete_keeps_draft [of "memory_client False" 5 True editing_milk]
       handleDelete_keeps_draft [of "memory_client True" 5 False editing_milk] t ok
  show ?thesis by (simp add: editing_milk_eq)
qed


subsection \<open>Edit and cancel\<close>

text \<open>
  C8. For every task, \<open>handleEdit\<close> followed by the cancel handler issues no call to the
  client, leaves the backend and the tasks alone, and puts the draft back to what it is on
  mount: empty title and description, \<open>editingId\<close> null. The only effect is the
  "Edit cancelled" toast.
\<close>

theorem edit_then_cancel:
  "added s (cancelEdit (handleEdit task s)) =
     [Toast Info ([0x270F, 0xFE0F] @ js '' Edit cancelled'')]
   \<and> remote (added s (handleEdit task s)) = []
   \<and> remote (added s (cancelEdit (handleEdit task s))) = []
   \<and> backend (cancelEdit (handleEdit task s)) = backend s
   \<and> tasks (cancelEdit (handleEdit task s)) = tasks s
   \<and> newTask (cancelEdit (handleEdit task s)) = \<lparr>title = [], desc = []\<rparr>
   \<and> editingId (cancelEdit (handleEdit task s)) = None
   \<and> newTask (cancelEdit (handleEdit task s)) = newTask (initial (backend s))
   \<and> editingId (cancelEdit (handleEdit task s)) = editingId (initial (backend s))"
  by (simp add: cancelEdit_def handleEdit_def toast_def added_def remote_def initial_def)

theorem edit_then_cancel_witness:
  "newTask (handleEdit milk mounted_milk) = \<lparr>title = js ''Buy milk'', desc = js ''2%''\<rparr>
   \<and> editingId (handleEdit milk mounted_milk) = Some 5
   \<and> cancelShown (handleEdit milk mounted_milk)
   \<and> newTask (cancelEdit (handleEdit milk mounted_milk)) = \<lparr>title = [], desc = []\<rparr>
   \<and> editingId (cancelEdit (handleEdit milk mounted_milk)) = None
   \<and> backend (cancelEdit (handleEdit milk mounted_milk)) = [milk]
   \<and> remote (added mounted_milk (cancelEdit (handleEdit milk mounted_milk))) = []"
  using edit_then_cancel [of mounted_milk milk]
  by (simp add: mounted_milk_eq handleEdit_def cancelEdit_def toast_def cancelShown_def milk_def
        added_def remote_def)

end
